theory Spec2Isabelle
  imports Main "HOL-Library.Word"
begin

section \<open>Bytes, Python integers and errors\<close>

text \<open>
  A Python \<open>bytes\<close> object is a list of 8-bit words; a Python \<open>int\<close> is unbounded and is
  modelled as \<open>int\<close>. Every exception the modelled code can raise is a constructor of
  \<open>error\<close>, and a computation that may raise returns \<open>error + 'a\<close> with \<open>Inl\<close> the
  exception.
\<close>

type_synonym byte = "8 word"

datatype error =
    OverflowError
  | FormatFieldError
  | StreamError
  | KeyError
  | NoValidAddress
  | RPCException string

text \<open>
  \<open>and_then\<close> sequences two steps: an exception of the first step leaves the second one
  unexecuted.
\<close>

definition and_then :: "error + 'a \<Rightarrow> ('a \<Rightarrow> error + 'b) \<Rightarrow> error + 'b" where
  "and_then r f = (case r of Inl e \<Rightarrow> Inl e | Inr x \<Rightarrow> f x)"

text \<open>
  \<open>v.to_bytes(n, 'little')\<close>: the \<open>n\<close> little-endian bytes of \<open>v\<close>, least significant
  first; \<open>OverflowError\<close> when \<open>v\<close> is negative or needs more than \<open>n\<close> bytes.
  \<open>int.from_bytes(bs, byteorder='little')\<close> reads them back.
\<close>

fun le_bytes :: "nat \<Rightarrow> int \<Rightarrow> byte list" where
  "le_bytes 0 v = []"
| "le_bytes (Suc n) v = word_of_int v # le_bytes n (v div 256)"

definition to_bytes :: "int \<Rightarrow> nat \<Rightarrow> error + byte list" where
  "to_bytes v n = (if 0 \<le> v \<and> v < 256 ^ n then Inr (le_bytes n v) else Inl OverflowError)"

fun from_bytes :: "byte list \<Rightarrow> int" where
  "from_bytes [] = 0"
| "from_bytes (b # bs) = uint b + 256 * from_bytes bs"

section \<open>The binary codec: fixed-width fields of \<open>borsh_construct\<close>\<close>

text \<open>
  \<open>borsh.U8\<close>, \<open>borsh.U16\<close>, \<open>borsh.U32\<close> and \<open>borsh.U64\<close> are unsigned little-endian
  format fields of 1, 2, 4 and 8 bytes. Building one from a value that does not fit the
  width raises \<open>FormatFieldError\<close>. Parsing reads the width from the stream and raises
  \<open>StreamError\<close> when the stream holds fewer bytes; the stream is the list of bytes not
  yet consumed, returned with the parsed value. Bytes left in the stream after the last
  field are not examined.
\<close>

definition stream_read :: "byte list \<Rightarrow> nat \<Rightarrow> error + (byte list \<times> byte list)" where
  "stream_read stream n =
     (if length stream < n then Inl StreamError else Inr (take n stream, drop n stream))"

definition FormatField_build :: "nat \<Rightarrow> int \<Rightarrow> error + byte list" where
  "FormatField_build n v =
     (if 0 \<le> v \<and> v < 256 ^ n then Inr (le_bytes n v) else Inl FormatFieldError)"

definition FormatField_parse :: "nat \<Rightarrow> byte list \<Rightarrow> error + (int \<times> byte list)" where
  "FormatField_parse n stream =
     and_then (stream_read stream n) (\<lambda>(chunk, rest). Inr (from_bytes chunk, rest))"

definition U8_build :: "int \<Rightarrow> error + byte list" where
  "U8_build = FormatField_build 1"

definition U64_build :: "int \<Rightarrow> error + byte list" where
  "U64_build = FormatField_build 8"

definition U8_parse :: "byte list \<Rightarrow> error + (int \<times> byte list)" where
  "U8_parse = FormatField_parse 1"

definition U16_parse :: "byte list \<Rightarrow> error + (int \<times> byte list)" where
  "U16_parse = FormatField_parse 2"

definition U32_parse :: "byte list \<Rightarrow> error + (int \<times> byte list)" where
  "U32_parse = FormatField_parse 4"

definition U64_parse :: "byte list \<Rightarrow> error + (int \<times> byte list)" where
  "U64_parse = FormatField_parse 8"

text \<open>\<open>borsh.Bool\<close> is one byte; every byte other than zero parses as true.\<close>

definition Bool_parse :: "byte list \<Rightarrow> error + (bool \<times> byte list)" where
  "Bool_parse stream =
     and_then (stream_read stream 1) (\<lambda>(chunk, rest). Inr (chunk \<noteq> [0], rest))"

text \<open>\<open>ConstructBytes(n)\<close> is \<open>n\<close> raw bytes.\<close>

definition Bytes_parse :: "nat \<Rightarrow> byte list \<Rightarrow> error + (byte list \<times> byte list)" where
  "Bytes_parse n stream = stream_read stream n"

subsection \<open>The command arguments\<close>

text \<open>
  \<open>args_struct = borsh.CStruct("vault_id" / borsh.U64, "new_sub_account" / borsh.U8)\<close>.
  \<open>build\<close> takes a dictionary, looks each field up by name in declaration order
  (\<open>KeyError\<close> when it is missing) and concatenates the fields' bytes. \<open>parse\<close> reads
  the fields in the same order and returns them as a dictionary in that order.
\<close>

definition dict_get :: "(string \<times> int) list \<Rightarrow> string \<Rightarrow> error + int" where
  "dict_get obj k = (case map_of obj k of None \<Rightarrow> Inl KeyError | Some v \<Rightarrow> Inr v)"

definition args_struct_build :: "(string \<times> int) list \<Rightarrow> error + byte list" where
  "args_struct_build obj =
     and_then (dict_get obj ''vault_id'') (\<lambda>vault_id.
     and_then (U64_build vault_id) (\<lambda>b1.
     and_then (dict_get obj ''new_sub_account'') (\<lambda>new_sub_account.
     and_then (U8_build new_sub_account) (\<lambda>b2.
     Inr (b1 @ b2)))))"

definition args_struct_parse :: "byte list \<Rightarrow> error + (string \<times> int) list" where
  "args_struct_parse data =
     and_then (U64_parse data) (\<lambda>(vault_id, s1).
     and_then (U8_parse s1) (\<lambda>(new_sub_account, s2).
     Inr [(''vault_id'', vault_id), (''new_sub_account'', new_sub_account)]))"

subsection \<open>The account record\<close>

text \<open>
  \<open>boring_vault_flat_struct\<close> of the test module: 23 fields in declaration order, parsed
  from the account data after its 8-byte tag has been sliced off.
\<close>

record boring_vault_flat =
  config_vault_id :: int
  config_authority :: "byte list"
  config_pending_authority :: "byte list"
  config_paused :: bool
  config_share_mint :: "byte list"
  config_deposit_sub_account :: int
  config_withdraw_sub_account :: int
  teller_base_asset :: "byte list"
  teller_decimals :: int
  teller_exchange_rate_provider :: "byte list"
  teller_exchange_rate :: int
  teller_exchange_rate_high_water_mark :: int
  teller_fees_owed_in_base_asset :: int
  teller_total_shares_last_update :: int
  teller_last_update_timestamp :: int
  teller_payout_address :: "byte list"
  teller_allowed_exchange_rate_change_upper_bound :: int
  teller_allowed_exchange_rate_change_lower_bound :: int
  teller_minimum_update_delay_in_seconds :: int
  teller_platform_fee_bps :: int
  teller_performance_fee_bps :: int
  teller_withdraw_authority :: "byte list"
  manager_strategist :: "byte list"

definition boring_vault_flat_struct_parse :: "byte list \<Rightarrow> error + boring_vault_flat" where
  "boring_vault_flat_struct_parse data =
     and_then (U64_parse data) (\<lambda>(f1, s1).
     and_then (Bytes_parse 32 s1) (\<lambda>(f2, s2).
     and_then (Bytes_parse 32 s2) (\<lambda>(f3, s3).
     and_then (Bool_parse s3) (\<lambda>(f4, s4).
     and_then (Bytes_parse 32 s4) (\<lambda>(f5, s5).
     and_then (U8_parse s5) (\<lambda>(f6, s6).
     and_then (U8_parse s6) (\<lambda>(f7, s7).
     and_then (Bytes_parse 32 s7) (\<lambda>(f8, s8).
     and_then (U8_parse s8) (\<lambda>(f9, s9).
     and_then (Bytes_parse 32 s9) (\<lambda>(f10, s10).
     and_then (U64_parse s10) (\<lambda>(f11, s11).
     and_then (U64_parse s11) (\<lambda>(f12, s12).
     and_then (U64_parse s12) (\<lambda>(f13, s13).
     and_then (U64_parse s13) (\<lambda>(f14, s14).
     and_then (U64_parse s14) (\<lambda>(f15, s15).
     and_then (Bytes_parse 32 s15) (\<lambda>(f16, s16).
     and_then (U16_parse s16) (\<lambda>(f17, s17).
     and_then (U16_parse s17) (\<lambda>(f18, s18).
     and_then (U32_parse s18) (\<lambda>(f19, s19).
     and_then (U16_parse s19) (\<lambda>(f20, s20).
     and_then (U16_parse s20) (\<lambda>(f21, s21).
     and_then (Bytes_parse 32 s21) (\<lambda>(f22, s22).
     and_then (Bytes_parse 32 s22) (\<lambda>(f23, s23).
     Inr \<lparr> config_vault_id = f1,
           config_authority = f2,
           config_pending_authority = f3,
           config_paused = f4,
           config_share_mint = f5,
           config_deposit_sub_account = f6,
           config_withdraw_sub_account = f7,
           teller_base_asset = f8,
           teller_decimals = f9,
           teller_exchange_rate_provider = f10,
           teller_exchange_rate = f11,
           teller_exchange_rate_high_water_mark = f12,
           teller_fees_owed_in_base_asset = f13,
           teller_total_shares_last_update = f14,
           teller_last_update_timestamp = f15,
           teller_payout_address = f16,
           teller_allowed_exchange_rate_change_upper_bound = f17,
           teller_allowed_exchange_rate_change_lower_bound = f18,
           teller_minimum_update_delay_in_seconds = f19,
           teller_platform_fee_bps = f20,
           teller_performance_fee_bps = f21,
           teller_withdraw_authority = f22,
           manager_strategist = f23 \<rparr>)))))))))))))))))))))))"

section \<open>Addresses, instructions and transactions\<close>

text \<open>
  The value types of the \<open>solders\<close> library, as far as the connectors use them. A
  \<open>Pubkey\<close> is its raw bytes, a \<open>Keypair\<close> is a secret with the address
  \<open>authority.pubkey()\<close> returns, and \<open>AccountMeta\<close>, \<open>Instruction\<close>,
  \<open>MessageV0\<close> and \<open>VersionedTransaction\<close> hold what their constructors are given.
  \<open>MessageV0.try_compile\<close> and the \<open>VersionedTransaction\<close> constructor are total
  here: the connectors hand them one instruction with two accounts, and the only required
  signer, the payer, is the key that signs.
\<close>

type_synonym pubkey = "byte list"
type_synonym hash = "byte list"
type_synonym signature = "byte list"

record Keypair =
  keypair_secret :: "byte list"
  keypair_pubkey :: pubkey

record AccountMeta =
  pubkey :: pubkey
  is_signer :: bool
  is_writable :: bool

record Instruction =
  instruction_program_id :: pubkey
  data :: "byte list"
  accounts :: "AccountMeta list"

record MessageV0 =
  payer :: pubkey
  instructions :: "Instruction list"
  address_lookup_table_accounts :: "pubkey list"
  recent_blockhash :: hash

record VersionedTransaction =
  message :: MessageV0
  signers :: "Keypair list"

section \<open>The RPC client\<close>

text \<open>
  The client is the transport. Its state records every request made through it, in order;
  what the network answers is not under the program's control and is part of the client:
  \<open>latest_blockhash\<close> is the answer to the checkpoint request and \<open>send_result\<close> the
  answer to a submission. A request is one of the four the repository makes.
\<close>

datatype rpc_call =
    GetLatestBlockhash
  | SendTransaction VersionedTransaction
  | ConfirmTransaction signature
  | GetAccountInfo pubkey

record Client =
  latest_blockhash :: "error + hash"
  send_result :: "VersionedTransaction \<Rightarrow> error + signature"
  calls :: "rpc_call list"

definition get_latest_blockhash :: "Client \<Rightarrow> (error + hash) \<times> Client" where
  "get_latest_blockhash client =
     (latest_blockhash client, client\<lparr>calls := calls client @ [GetLatestBlockhash]\<rparr>)"

definition send_transaction ::
  "Client \<Rightarrow> VersionedTransaction \<Rightarrow> (error + signature) \<times> Client" where
  "send_transaction client transaction =
     (send_result client transaction,
      client\<lparr>calls := calls client @ [SendTransaction transaction]\<rparr>)"

section \<open>The connectors\<close>

definition SET_DEPOSIT_SUB_ACCOUNT_DISCRIMINATOR :: "byte list" where
  "SET_DEPOSIT_SUB_ACCOUNT_DISCRIMINATOR = [135, 238, 218, 4, 120, 77, 207, 156]"

definition SET_WITHDRAW_SUB_ACCOUNT_DISCRIMINATOR :: "byte list" where
  "SET_WITHDRAW_SUB_ACCOUNT_DISCRIMINATOR = [152, 197, 103, 249, 56, 180, 0, 172]"

definition BASE_SEED_BORING_VAULT_STATE :: "byte list" where
  "BASE_SEED_BORING_VAULT_STATE = map of_char ''boring-vault-state''"

text \<open>
  \<open>Pubkey.find_program_address\<close> is a function of the \<open>solders\<close> library; the
  connectors take it as the parameter \<open>find_program_address\<close>, from the seed list and the
  program id to the address and its bump, or to the exception of a failed search.

  Each connector is modelled in two parts. The first is the value of its local variable
  \<open>instruction\<close> (lines 49 to 69 and 95 to 115 of the source): the seed bytes, the
  derivation, the encoded arguments, the instruction data and the account list, in the
  order the source evaluates them. The second is the whole function: it builds the
  instruction, asks the client for the latest blockhash, compiles and signs the message
  and sends the transaction, returning the client's answer and the client after the calls.
\<close>

definition set_deposit_sub_account_instruction ::
  "(byte list list \<Rightarrow> pubkey \<Rightarrow> error + (pubkey \<times> nat)) \<Rightarrow>
   pubkey \<Rightarrow> int \<Rightarrow> int \<Rightarrow> Keypair \<Rightarrow> error + Instruction" where
  "set_deposit_sub_account_instruction find_program_address program_id vault_id
       new_sub_account authority =
     and_then (to_bytes vault_id 8) (\<lambda>vault_id_bytes.
     and_then (find_program_address [BASE_SEED_BORING_VAULT_STATE, vault_id_bytes] program_id)
       (\<lambda>(vault_state_pda, _).
     and_then (args_struct_build
                 [(''vault_id'', vault_id), (''new_sub_account'', new_sub_account)])
       (\<lambda>encoded_args.
     let instruction_data = SET_DEPOSIT_SUB_ACCOUNT_DISCRIMINATOR @ encoded_args;
         accounts =
           [\<lparr>pubkey = keypair_pubkey authority, is_signer = True, is_writable = False\<rparr>,
            \<lparr>pubkey = vault_state_pda, is_signer = False, is_writable = True\<rparr>]
     in Inr \<lparr>instruction_program_id = program_id,
             data = instruction_data,
             accounts = accounts\<rparr>)))"

definition set_deposit_sub_account ::
  "(byte list list \<Rightarrow> pubkey \<Rightarrow> error + (pubkey \<times> nat)) \<Rightarrow>
   Client \<Rightarrow> pubkey \<Rightarrow> int \<Rightarrow> int \<Rightarrow> Keypair \<Rightarrow> (error + signature) \<times> Client" where
  "set_deposit_sub_account find_program_address client program_id vault_id
       new_sub_account authority =
     (case set_deposit_sub_account_instruction find_program_address program_id vault_id
             new_sub_account authority of
        Inl e \<Rightarrow> (Inl e, client)
      | Inr instruction \<Rightarrow>
          (case get_latest_blockhash client of
             (Inl e, client1) \<Rightarrow> (Inl e, client1)
           | (Inr blockhash, client1) \<Rightarrow>
               let message = \<lparr>payer = keypair_pubkey authority,
                              instructions = [instruction],
                              address_lookup_table_accounts = [],
                              recent_blockhash = blockhash\<rparr>;
                   transaction = \<lparr>message = message, signers = [authority]\<rparr>
               in send_transaction client1 transaction))"

definition set_withdraw_sub_account_instruction ::
  "(byte list list \<Rightarrow> pubkey \<Rightarrow> error + (pubkey \<times> nat)) \<Rightarrow>
   pubkey \<Rightarrow> int \<Rightarrow> int \<Rightarrow> Keypair \<Rightarrow> error + Instruction" where
  "set_withdraw_sub_account_instruction find_program_address program_id vault_id
       new_sub_account authority =
     and_then (to_bytes vault_id 8) (\<lambda>vault_id_bytes.
     and_then (find_program_address [BASE_SEED_BORING_VAULT_STATE, vault_id_bytes] program_id)
       (\<lambda>(vault_state_pda, _).
     and_then (args_struct_build
                 [(''vault_id'', vault_id), (''new_sub_account'', new_sub_account)])
       (\<lambda>encoded_args.
     let instruction_data = SET_WITHDRAW_SUB_ACCOUNT_DISCRIMINATOR @ encoded_args;
         accounts =
           [\<lparr>pubkey = keypair_pubkey authority, is_signer = True, is_writable = False\<rparr>,
            \<lparr>pubkey = vault_state_pda, is_signer = False, is_writable = True\<rparr>]
     in Inr \<lparr>instruction_program_id = program_id,
             data = instruction_data,
             accounts = accounts\<rparr>)))"

definition set_withdraw_sub_account ::
  "(byte list list \<Rightarrow> pubkey \<Rightarrow> error + (pubkey \<times> nat)) \<Rightarrow>
   Client \<Rightarrow> pubkey \<Rightarrow> int \<Rightarrow> int \<Rightarrow> Keypair \<Rightarrow> (error + signature) \<times> Client" where
  "set_withdraw_sub_account find_program_address client program_id vault_id
       new_sub_account authority =
     (case set_withdraw_sub_account_instruction find_program_address program_id vault_id
             new_sub_account authority of
        Inl e \<Rightarrow> (Inl e, client)
      | Inr instruction \<Rightarrow>
          (case get_latest_blockhash client of
             (Inl e, client1) \<Rightarrow> (Inl e, client1)
           | (Inr blockhash, client1) \<Rightarrow>
               let message = \<lparr>payer = keypair_pubkey authority,
                              instructions = [instruction],
                              address_lookup_table_accounts = [],
                              recent_blockhash = blockhash\<rparr>;
                   transaction = \<lparr>message = message, signers = [authority]\<rparr>
               in send_transaction client1 transaction))"

section \<open>Address derivation\<close>

text \<open>
  Modelled from the spec: \<open>Pubkey.find_program_address\<close> belongs to the \<open>solders\<close>
  library and is not among the repository's sources. Section 4.2 of the specification
  describes the derivation \<open>derive(program_id, namespace_seed, identifier: u64)\<close>: for a
  bump, the namespace seed, the identifier as 8 little-endian bytes, the bump as one byte
  and the program id are concatenated and hashed. The hash function is a parameter.
\<close>

definition candidate_address ::
  "(byte list \<Rightarrow> pubkey) \<Rightarrow> pubkey \<Rightarrow> byte list \<Rightarrow> 64 word \<Rightarrow> nat \<Rightarrow> pubkey" where
  "candidate_address hash program_id namespace_seed ident bump =
     hash (namespace_seed @ le_bytes 8 (uint ident) @ [of_nat bump] @ program_id)"

text \<open>
  Modelled from the spec: the search of section 4.2 as a relation between the bump it has
  reached and its outcome. Bumps are tried in descending order; the first one whose
  candidate lies off the curve is the result, with its address; when bump 0 is on the
  curve too the search is exhausted and fails with \<open>NoValidAddress\<close>. The curve test is
  a parameter.
\<close>

inductive derive_from ::
  "(byte list \<Rightarrow> pubkey) \<Rightarrow> (pubkey \<Rightarrow> bool) \<Rightarrow> pubkey \<Rightarrow> byte list \<Rightarrow> 64 word \<Rightarrow>
   nat \<Rightarrow> error + (pubkey \<times> nat) \<Rightarrow> bool"
  for hash on_curve program_id namespace_seed ident
where
  found:
    "\<not> on_curve (candidate_address hash program_id namespace_seed ident bump) \<Longrightarrow>
     derive_from hash on_curve program_id namespace_seed ident bump
       (Inr (candidate_address hash program_id namespace_seed ident bump, bump))"
| next_bump:
    "on_curve (candidate_address hash program_id namespace_seed ident (Suc bump)) \<Longrightarrow>
     derive_from hash on_curve program_id namespace_seed ident bump outcome \<Longrightarrow>
     derive_from hash on_curve program_id namespace_seed ident (Suc bump) outcome"
| exhausted:
    "on_curve (candidate_address hash program_id namespace_seed ident 0) \<Longrightarrow>
     derive_from hash on_curve program_id namespace_seed ident 0 (Inl NoValidAddress)"

code_pred derive_from .

text \<open>
  Modelled from the spec: one invocation of \<open>derive\<close> is a run of the search that starts
  at bump 255.
\<close>

definition derives ::
  "(byte list \<Rightarrow> pubkey) \<Rightarrow> (pubkey \<Rightarrow> bool) \<Rightarrow> pubkey \<Rightarrow> byte list \<Rightarrow> 64 word \<Rightarrow>
   error + (pubkey \<times> nat) \<Rightarrow> bool" where
  "derives hash on_curve program_id namespace_seed ident outcome =
     derive_from hash on_curve program_id namespace_seed ident 255 outcome"

text \<open>
  Modelled from the spec: the same search as a function, a loop over the bump with at most
  256 iterations, as section 9 of the specification asks for.
\<close>

fun search_bump ::
  "(byte list \<Rightarrow> pubkey) \<Rightarrow> (pubkey \<Rightarrow> bool) \<Rightarrow> pubkey \<Rightarrow> byte list \<Rightarrow> 64 word \<Rightarrow>
   nat \<Rightarrow> error + (pubkey \<times> nat)" where
  "search_bump hash on_curve program_id namespace_seed ident 0 =
     (let address = candidate_address hash program_id namespace_seed ident 0
      in if on_curve address then Inl NoValidAddress else Inr (address, 0))"
| "search_bump hash on_curve program_id namespace_seed ident (Suc bump) =
     (let address = candidate_address hash program_id namespace_seed ident (Suc bump)
      in if on_curve address
         then search_bump hash on_curve program_id namespace_seed ident bump
         else Inr (address, Suc bump))"

text \<open>
  Modelled from the spec: \<open>derive\<close> of section 4.2, the search from bump 255.
\<close>

definition derive ::
  "(byte list \<Rightarrow> pubkey) \<Rightarrow> (pubkey \<Rightarrow> bool) \<Rightarrow> pubkey \<Rightarrow> byte list \<Rightarrow> 64 word \<Rightarrow>
   error + (pubkey \<times> nat)" where
  "derive hash on_curve program_id namespace_seed ident =
     search_bump hash on_curve program_id namespace_seed ident 255"

section \<open>Properties of the byte encodings\<close>

lemma and_then_Inr [simp]: "and_then (Inr x) f = f x"
  by (simp add: and_then_def)

lemma and_then_Inl [simp]: "and_then (Inl e) f = Inl e"
  by (simp add: and_then_def)

lemma length_le_bytes [simp]: "length (le_bytes n v) = n"
  by (induction n arbitrary: v) simp_all

lemma le_bytes_map: "le_bytes n v = map (\<lambda>k. word_of_int (v div 256 ^ k)) [0..<n]"
proof (induction n arbitrary: v)
  case 0
  show ?case by simp
next
  case (Suc n)
  have "map (\<lambda>k. word_of_int (v div 256 ^ k) :: byte) [0..<Suc n]
      = word_of_int v # map (\<lambda>k. word_of_int (v div 256 ^ Suc k)) [0..<n]"
    by (simp add: upt_conv_Cons map_Suc_upt [symmetric] del: upt_Suc)
  also have "map (\<lambda>k. word_of_int (v div 256 ^ Suc k) :: byte) [0..<n]
      = map (\<lambda>k. word_of_int (v div 256 div 256 ^ k)) [0..<n]"
    by (simp add: zdiv_zmult2_eq)
  finally show ?case using Suc by simp
qed

lemma from_bytes_le_bytes: "0 \<le> v \<Longrightarrow> v < 256 ^ n \<Longrightarrow> from_bytes (le_bytes n v) = v"
proof (induction n arbitrary: v)
  case 0
  then show ?case by simp
next
  case (Suc n)
  have "0 \<le> v div 256" using Suc.prems by simp
  moreover have "v div 256 < 256 ^ n"
    using Suc.prems by (simp add: div_less_iff_less_mult mult.commute)
  ultimately have "from_bytes (le_bytes n (v div 256)) = v div 256" by (rule Suc.IH)
  moreover have "uint (word_of_int v :: byte) = v mod 256" by (simp add: uint_word_of_int)
  ultimately show ?case by simp
qed

lemma le_bytes_8:
  "le_bytes 8 v =
     [word_of_int v, word_of_int (v div 2 ^ 8), word_of_int (v div 2 ^ 16),
      word_of_int (v div 2 ^ 24), word_of_int (v div 2 ^ 32), word_of_int (v div 2 ^ 40),
      word_of_int (v div 2 ^ 48), word_of_int (v div 2 ^ 56)]"
  by (simp add: le_bytes_map upt_rec [of _ 8] del: upt_Suc)

lemma le_bytes_1: "le_bytes 1 v = [word_of_int v]"
  by (simp add: le_bytes_map)

lemma args_struct_build_ok:
  assumes "0 \<le> vault_id" "vault_id < 2 ^ 64" "0 \<le> new_sub_account" "new_sub_account < 256"
  shows "args_struct_build [(''vault_id'', vault_id), (''new_sub_account'', new_sub_account)]
       = Inr (le_bytes 8 vault_id @ le_bytes 1 new_sub_account)"
  using assms by (simp add: args_struct_build_def dict_get_def U64_build_def U8_build_def FormatField_build_def)

lemma stream_read_ok:
  "n \<le> length stream \<Longrightarrow> stream_read stream n = Inr (take n stream, drop n stream)"
  by (simp add: stream_read_def)

lemma args_struct_parse_le_bytes:
  assumes "0 \<le> vault_id" "vault_id < 2 ^ 64" "0 \<le> new_sub_account" "new_sub_account < 256"
  shows "args_struct_parse (le_bytes 8 vault_id @ le_bytes 1 new_sub_account)
         = Inr [(''vault_id'', vault_id), (''new_sub_account'', new_sub_account)]"
proof -
  have "from_bytes (le_bytes 8 vault_id) = vault_id"
    using assms by (intro from_bytes_le_bytes) simp_all
  moreover have "from_bytes (le_bytes 1 new_sub_account) = new_sub_account"
    using assms by (intro from_bytes_le_bytes) simp_all
  ultimately show ?thesis
    by (simp add: args_struct_parse_def U64_parse_def U8_parse_def FormatField_parse_def
        stream_read_ok)
qed

section \<open>Properties of the argument codec\<close>

text \<open>
  Claim C5. For every identifier in \<open>[0, 2^64)\<close> and selector in \<open>[0, 256)\<close> the
  argument encoder returns a buffer of exactly 9 bytes: byte \<open>k\<close> of the first eight is
  bits \<open>8k\<close> to \<open>8k + 7\<close> of the identifier (little-endian), the ninth is the selector,
  and nothing stands before, between or after them.
\<close>

theorem args_struct_build_layout:
  assumes "0 \<le> vault_id" "vault_id < 2 ^ 64" "0 \<le> new_sub_account" "new_sub_account < 256"
  shows "\<exists>encoded_args.
           args_struct_build [(''vault_id'', vault_id), (''new_sub_account'', new_sub_account)]
             = Inr encoded_args
         \<and> length encoded_args = 9
         \<and> encoded_args =
             [word_of_int vault_id, word_of_int (vault_id div 2 ^ 8),
              word_of_int (vault_id div 2 ^ 16), word_of_int (vault_id div 2 ^ 24),
              word_of_int (vault_id div 2 ^ 32), word_of_int (vault_id div 2 ^ 40),
              word_of_int (vault_id div 2 ^ 48), word_of_int (vault_id div 2 ^ 56),
              word_of_int new_sub_account]
         \<and> from_bytes (take 8 encoded_args) = vault_id
         \<and> from_bytes (drop 8 encoded_args) = new_sub_account"
proof -
  let ?enc = "le_bytes 8 vault_id @ le_bytes 1 new_sub_account"
  have build: "args_struct_build
                 [(''vault_id'', vault_id), (''new_sub_account'', new_sub_account)] = Inr ?enc"
    by (rule args_struct_build_ok [OF assms])
  have len: "length ?enc = 9" by simp
  have bytes: "?enc =
             [word_of_int vault_id, word_of_int (vault_id div 2 ^ 8),
              word_of_int (vault_id div 2 ^ 16), word_of_int (vault_id div 2 ^ 24),
              word_of_int (vault_id div 2 ^ 32), word_of_int (vault_id div 2 ^ 40),
              word_of_int (vault_id div 2 ^ 48), word_of_int (vault_id div 2 ^ 56),
              word_of_int new_sub_account]"
    unfolding le_bytes_8 le_bytes_1 by simp
  have "from_bytes (le_bytes 8 vault_id) = vault_id"
    using assms by (intro from_bytes_le_bytes) simp_all
  then have id: "from_bytes (take 8 ?enc) = vault_id" by simp
  have "from_bytes (le_bytes 1 new_sub_account) = new_sub_account"
    using assms by (intro from_bytes_le_bytes) simp_all
  then have sel: "from_bytes (drop 8 ?enc) = new_sub_account" by simp
  from build len bytes id sel show ?thesis by blast
qed

theorem args_struct_build_layout_witness:
  "\<exists>encoded_args. args_struct_build [(''vault_id'', 258), (''new_sub_account'', 255)]
     = Inr encoded_args \<and> encoded_args = [2, 1, 0, 0, 0, 0, 0, 0, 255]"
  using args_struct_build_layout [of 258 255] by simp

text \<open>
  Claim C3. For every identifier in \<open>[0, 2^64)\<close> and selector in \<open>[0, 256)\<close>, parsing
  the buffer built from the pair returns the pair: building succeeds and the parse of its
  result is the dictionary that was built.
\<close>

theorem args_struct_round_trip:
  assumes "0 \<le> vault_id" "vault_id < 2 ^ 64" "0 \<le> new_sub_account" "new_sub_account < 256"
  shows "and_then
           (args_struct_build [(''vault_id'', vault_id), (''new_sub_account'', new_sub_account)])
           args_struct_parse
         = Inr [(''vault_id'', vault_id), (''new_sub_account'', new_sub_account)]"
  by (simp only: args_struct_build_ok [OF assms] and_then_Inr
      args_struct_parse_le_bytes [OF assms])

theorem args_struct_round_trip_witness:
  "and_then (args_struct_build [(''vault_id'', 258), (''new_sub_account'', 255)])
     args_struct_parse = Inr [(''vault_id'', 258), (''new_sub_account'', 255)]"
  using args_struct_round_trip [of 258 255] by simp

section \<open>Properties of the connectors\<close>

lemma to_bytes_8_ok: "0 \<le> v \<Longrightarrow> v < 2 ^ 64 \<Longrightarrow> to_bytes v 8 = Inr (le_bytes 8 v)"
  by (simp add: to_bytes_def)

lemma set_deposit_sub_account_instruction_ok:
  assumes "0 \<le> vault_id" "vault_id < 2 ^ 64" "0 \<le> new_sub_account" "new_sub_account < 256"
    and "find_program_address [BASE_SEED_BORING_VAULT_STATE, le_bytes 8 vault_id] program_id
           = Inr (vault_state_pda, bump)"
  shows "set_deposit_sub_account_instruction find_program_address program_id vault_id
           new_sub_account authority
         = Inr \<lparr>instruction_program_id = program_id,
                data = SET_DEPOSIT_SUB_ACCOUNT_DISCRIMINATOR
                         @ le_bytes 8 vault_id @ le_bytes 1 new_sub_account,
                accounts =
                  [\<lparr>pubkey = keypair_pubkey authority, is_signer = True, is_writable = False\<rparr>,
                   \<lparr>pubkey = vault_state_pda, is_signer = False, is_writable = True\<rparr>]\<rparr>"
  unfolding set_deposit_sub_account_instruction_def
  by (simp only: to_bytes_8_ok [OF assms(1,2)] and_then_Inr assms(5) prod.case
      args_struct_build_ok [OF assms(1-4)] Let_def)

lemma set_withdraw_sub_account_instruction_ok:
  assumes "0 \<le> vault_id" "vault_id < 2 ^ 64" "0 \<le> new_sub_account" "new_sub_account < 256"
    and "find_program_address [BASE_SEED_BORING_VAULT_STATE, le_bytes 8 vault_id] program_id
           = Inr (vault_state_pda, bump)"
  shows "set_withdraw_sub_account_instruction find_program_address program_id vault_id
           new_sub_account authority
         = Inr \<lparr>instruction_program_id = program_id,
                data = SET_WITHDRAW_SUB_ACCOUNT_DISCRIMINATOR
                         @ le_bytes 8 vault_id @ le_bytes 1 new_sub_account,
                accounts =
                  [\<lparr>pubkey = keypair_pubkey authority, is_signer = True, is_writable = False\<rparr>,
                   \<lparr>pubkey = vault_state_pda, is_signer = False, is_writable = True\<rparr>]\<rparr>"
  unfolding set_withdraw_sub_account_instruction_def
  by (simp only: to_bytes_8_ok [OF assms(1,2)] and_then_Inr assms(5) prod.case
      args_struct_build_ok [OF assms(1-4)] Let_def)

lemma args_struct_build_cases:
  "args_struct_build [(''vault_id'', vault_id), (''new_sub_account'', new_sub_account)] =
     (if 0 \<le> vault_id \<and> vault_id < 2 ^ 64 \<and> 0 \<le> new_sub_account \<and> new_sub_account < 256
      then Inr (le_bytes 8 vault_id @ le_bytes 1 new_sub_account)
      else Inl FormatFieldError)"
  by (simp add: args_struct_build_def dict_get_def U64_build_def U8_build_def
      FormatField_build_def)

lemma set_deposit_sub_account_instruction_cases:
  "set_deposit_sub_account_instruction find_program_address program_id vault_id
       new_sub_account authority =
     (if \<not> (0 \<le> vault_id \<and> vault_id < 2 ^ 64) then Inl OverflowError
      else case find_program_address [BASE_SEED_BORING_VAULT_STATE, le_bytes 8 vault_id]
                  program_id of
        Inl e \<Rightarrow> Inl e
      | Inr (vault_state_pda, bump) \<Rightarrow>
          if \<not> (0 \<le> new_sub_account \<and> new_sub_account < 256) then Inl FormatFieldError
          else Inr \<lparr>instruction_program_id = program_id,
                 data = SET_DEPOSIT_SUB_ACCOUNT_DISCRIMINATOR
                          @ le_bytes 8 vault_id @ le_bytes 1 new_sub_account,
                 accounts =
                   [\<lparr>pubkey = keypair_pubkey authority, is_signer = True,
                       is_writable = False\<rparr>,
                    \<lparr>pubkey = vault_state_pda, is_signer = False, is_writable = True\<rparr>]\<rparr>)"
  unfolding set_deposit_sub_account_instruction_def args_struct_build_cases
  by (simp add: to_bytes_def split: sum.splits prod.splits)

lemma set_withdraw_sub_account_instruction_cases:
  "set_withdraw_sub_account_instruction find_program_address program_id vault_id
       new_sub_account authority =
     (if \<not> (0 \<le> vault_id \<and> vault_id < 2 ^ 64) then Inl OverflowError
      else case find_program_address [BASE_SEED_BORING_VAULT_STATE, le_bytes 8 vault_id]
                  program_id of
        Inl e \<Rightarrow> Inl e
      | Inr (vault_state_pda, bump) \<Rightarrow>
          if \<not> (0 \<le> new_sub_account \<and> new_sub_account < 256) then Inl FormatFieldError
          else Inr \<lparr>instruction_program_id = program_id,
                 data = SET_WITHDRAW_SUB_ACCOUNT_DISCRIMINATOR
                          @ le_bytes 8 vault_id @ le_bytes 1 new_sub_account,
                 accounts =
                   [\<lparr>pubkey = keypair_pubkey authority, is_signer = True,
                       is_writable = False\<rparr>,
                    \<lparr>pubkey = vault_state_pda, is_signer = False, is_writable = True\<rparr>]\<rparr>)"
  unfolding set_withdraw_sub_account_instruction_def args_struct_build_cases
  by (simp add: to_bytes_def split: sum.splits prod.splits)

text \<open>
  Claim C1. For every identifier in \<open>[0, 2^64)\<close> and selector in \<open>[0, 256)\<close>, once the
  address derivation has returned, the set-deposit-sub-account connector builds an
  instruction whose data is its 8-byte discriminator, then the identifier as 8
  little-endian bytes, then the selector byte: 17 bytes. For identifier 1 and selector 5
  the data is \<open>87 EE DA 04 78 4D CF 9C 01 00 00 00 00 00 00 00 05\<close>.
\<close>

theorem set_deposit_sub_account_instruction_data:
  assumes "0 \<le> vault_id" "vault_id < 2 ^ 64" "0 \<le> new_sub_account" "new_sub_account < 256"
    and "find_program_address [BASE_SEED_BORING_VAULT_STATE, le_bytes 8 vault_id] program_id
           = Inr (vault_state_pda, bump)"
  shows "\<exists>instruction.
           set_deposit_sub_account_instruction find_program_address program_id vault_id
             new_sub_account authority = Inr instruction
         \<and> data instruction =
             [135, 238, 218, 4, 120, 77, 207, 156]
             @ [word_of_int vault_id, word_of_int (vault_id div 2 ^ 8),
                word_of_int (vault_id div 2 ^ 16), word_of_int (vault_id div 2 ^ 24),
                word_of_int (vault_id div 2 ^ 32), word_of_int (vault_id div 2 ^ 40),
                word_of_int (vault_id div 2 ^ 48), word_of_int (vault_id div 2 ^ 56)]
             @ [word_of_int new_sub_account]
         \<and> length (data instruction) = 17
         \<and> (vault_id = 1 \<and> new_sub_account = 5 \<longrightarrow>
              data instruction =
                [0x87, 0xEE, 0xDA, 0x04, 0x78, 0x4D, 0xCF, 0x9C,
                 0x01, 0x00, 0x00, 0x00, 0x00, 0x00, 0x00, 0x00, 0x05])"
proof -
  let ?d = "SET_DEPOSIT_SUB_ACCOUNT_DISCRIMINATOR
              @ le_bytes 8 vault_id @ le_bytes 1 new_sub_account"
  have bytes: "?d = [135, 238, 218, 4, 120, 77, 207, 156]
             @ [word_of_int vault_id, word_of_int (vault_id div 2 ^ 8),
                word_of_int (vault_id div 2 ^ 16), word_of_int (vault_id div 2 ^ 24),
                word_of_int (vault_id div 2 ^ 32), word_of_int (vault_id div 2 ^ 40),
                word_of_int (vault_id div 2 ^ 48), word_of_int (vault_id div 2 ^ 56)]
             @ [word_of_int new_sub_account]"
    unfolding le_bytes_8 le_bytes_1 SET_DEPOSIT_SUB_ACCOUNT_DISCRIMINATOR_def by simp
  have len: "length ?d = 17"
    by (simp add: SET_DEPOSIT_SUB_ACCOUNT_DISCRIMINATOR_def)
  have scen: "vault_id = 1 \<and> new_sub_account = 5 \<longrightarrow>
       ?d = [0x87, 0xEE, 0xDA, 0x04, 0x78, 0x4D, 0xCF, 0x9C,
             0x01, 0x00, 0x00, 0x00, 0x00, 0x00, 0x00, 0x00, 0x05]"
    unfolding bytes by simp
  have "set_deposit_sub_account_instruction find_program_address program_id vault_id
           new_sub_account authority
         = Inr \<lparr>instruction_program_id = program_id, data = ?d,
                accounts =
                  [\<lparr>pubkey = keypair_pubkey authority, is_signer = True, is_writable = False\<rparr>,
                   \<lparr>pubkey = vault_state_pda, is_signer = False, is_writable = True\<rparr>]\<rparr>"
    using assms by (rule set_deposit_sub_account_instruction_ok)
  then show ?thesis
    using bytes len scen by simp
qed

theorem set_deposit_sub_account_instruction_data_witness:
  "\<exists>instruction.
     set_deposit_sub_account_instruction (\<lambda>seeds program_id. Inr (concat seeds, 255)) [7] 1 5
       \<lparr>keypair_secret = [9], keypair_pubkey = [3]\<rparr> = Inr instruction
     \<and> data instruction =
         [0x87, 0xEE, 0xDA, 0x04, 0x78, 0x4D, 0xCF, 0x9C,
          0x01, 0x00, 0x00, 0x00, 0x00, 0x00, 0x00, 0x00, 0x05]"
  using set_deposit_sub_account_instruction_data
    [where vault_id = 1 and new_sub_account = 5
       and find_program_address = "\<lambda>seeds program_id. Inr (concat seeds, 255)"
       and program_id = "[7]"
       and vault_state_pda = "concat [BASE_SEED_BORING_VAULT_STATE, le_bytes 8 1]"
       and bump = 255 and authority = "\<lparr>keypair_secret = [9], keypair_pubkey = [3]\<rparr>"]
  by auto

text \<open>
  Claim C4. For identifier 1 and selector 10, once the address derivation has returned,
  the data of the instruction built by the set-withdraw-sub-account connector is the
  discriminator \<open>98 C5 67 F9 38 B4 00 AC\<close>, the 8 little-endian bytes of 1 and the byte
  \<open>0A\<close>.
\<close>

theorem set_withdraw_sub_account_instruction_data:
  assumes "find_program_address [BASE_SEED_BORING_VAULT_STATE, le_bytes 8 1] program_id
             = Inr (vault_state_pda, bump)"
  shows "\<exists>instruction.
           set_withdraw_sub_account_instruction find_program_address program_id 1 10 authority
             = Inr instruction
         \<and> data instruction =
             [0x98, 0xC5, 0x67, 0xF9, 0x38, 0xB4, 0x00, 0xAC]
             @ [0x01, 0x00, 0x00, 0x00, 0x00, 0x00, 0x00, 0x00]
             @ [0x0A]"
proof -
  have "set_withdraw_sub_account_instruction find_program_address program_id 1 10 authority
         = Inr \<lparr>instruction_program_id = program_id,
                data = SET_WITHDRAW_SUB_ACCOUNT_DISCRIMINATOR @ le_bytes 8 1 @ le_bytes 1 10,
                accounts =
                  [\<lparr>pubkey = keypair_pubkey authority, is_signer = True, is_writable = False\<rparr>,
                   \<lparr>pubkey = vault_state_pda, is_signer = False, is_writable = True\<rparr>]\<rparr>"
    using assms by (intro set_withdraw_sub_account_instruction_ok) simp_all
  then show ?thesis
    by (simp add: le_bytes_8 le_bytes_1 SET_WITHDRAW_SUB_ACCOUNT_DISCRIMINATOR_def)
qed

theorem set_withdraw_sub_account_instruction_data_witness:
  "\<exists>instruction.
     set_withdraw_sub_account_instruction (\<lambda>seeds program_id. Inr (concat seeds, 255)) [7] 1 10
       \<lparr>keypair_secret = [9], keypair_pubkey = [3]\<rparr> = Inr instruction
     \<and> data instruction =
         [0x98, 0xC5, 0x67, 0xF9, 0x38, 0xB4, 0x00, 0xAC,
          0x01, 0x00, 0x00, 0x00, 0x00, 0x00, 0x00, 0x00, 0x0A]"
  using set_withdraw_sub_account_instruction_data
    [where find_program_address = "\<lambda>seeds program_id. Inr (concat seeds, 255)"
       and program_id = "[7]"
       and vault_state_pda = "concat [BASE_SEED_BORING_VAULT_STATE, le_bytes 8 1]"
       and bump = 255 and authority = "\<lparr>keypair_secret = [9], keypair_pubkey = [3]\<rparr>"]
  by auto

lemma built_instruction_accounts:
  assumes "set_deposit_sub_account_instruction find_program_address program_id vault_id
             new_sub_account authority = Inr instruction
         \<or> set_withdraw_sub_account_instruction find_program_address program_id vault_id
             new_sub_account authority = Inr instruction"
  shows "\<exists>vault_state_pda bump.
           find_program_address [BASE_SEED_BORING_VAULT_STATE, le_bytes 8 vault_id] program_id
             = Inr (vault_state_pda, bump)
         \<and> length (accounts instruction) = 2
         \<and> accounts instruction =
             [\<lparr>pubkey = keypair_pubkey authority, is_signer = True, is_writable = False\<rparr>,
              \<lparr>pubkey = vault_state_pda, is_signer = False, is_writable = True\<rparr>]"
  using assms
  unfolding set_deposit_sub_account_instruction_cases set_withdraw_sub_account_instruction_cases
  by (auto split: if_splits sum.splits prod.splits)

text \<open>
  Claim C6. On an identifier in \<open>[0, 2^64)\<close> and a selector in \<open>[0, 256)\<close>, once the
  address derivation has returned, each of the two connectors builds an instruction, and
  its account list has exactly two entries: first the authority's address, signer and not
  writable, then the derived vault-state address, not signer and writable. No other
  instruction is ever built: whatever instruction either connector builds has that list.
\<close>

theorem instruction_accounts:
  "(0 \<le> vault_id \<and> vault_id < 2 ^ 64 \<and> 0 \<le> new_sub_account \<and> new_sub_account < 256
    \<and> find_program_address [BASE_SEED_BORING_VAULT_STATE, le_bytes 8 vault_id] program_id
          = Inr (vault_state_pda, bump)
    \<longrightarrow> (\<exists>deposit withdraw.
           set_deposit_sub_account_instruction find_program_address program_id vault_id
             new_sub_account authority = Inr deposit
         \<and> set_withdraw_sub_account_instruction find_program_address program_id vault_id
             new_sub_account authority = Inr withdraw
         \<and> length (accounts deposit) = 2
         \<and> accounts deposit =
             [\<lparr>pubkey = keypair_pubkey authority, is_signer = True, is_writable = False\<rparr>,
              \<lparr>pubkey = vault_state_pda, is_signer = False, is_writable = True\<rparr>]
         \<and> length (accounts withdraw) = 2
         \<and> accounts withdraw =
             [\<lparr>pubkey = keypair_pubkey authority, is_signer = True, is_writable = False\<rparr>,
              \<lparr>pubkey = vault_state_pda, is_signer = False, is_writable = True\<rparr>]))
   \<and> (\<forall>instruction.
         set_deposit_sub_account_instruction find_program_address program_id vault_id
           new_sub_account authority = Inr instruction
       \<or> set_withdraw_sub_account_instruction find_program_address program_id vault_id
           new_sub_account authority = Inr instruction
       \<longrightarrow> (\<exists>pda b.
              find_program_address [BASE_SEED_BORING_VAULT_STATE, le_bytes 8 vault_id]
                program_id = Inr (pda, b)
            \<and> length (accounts instruction) = 2
            \<and> accounts instruction =
                [\<lparr>pubkey = keypair_pubkey authority, is_signer = True, is_writable = False\<rparr>,
                 \<lparr>pubkey = pda, is_signer = False, is_writable = True\<rparr>]))"
proof (intro conjI impI allI)
  assume valid: "0 \<le> vault_id \<and> vault_id < 2 ^ 64 \<and> 0 \<le> new_sub_account
    \<and> new_sub_account < 256
    \<and> find_program_address [BASE_SEED_BORING_VAULT_STATE, le_bytes 8 vault_id] program_id
          = Inr (vault_state_pda, bump)"
  then show "\<exists>deposit withdraw.
           set_deposit_sub_account_instruction find_program_address program_id vault_id
             new_sub_account authority = Inr deposit
         \<and> set_withdraw_sub_account_instruction find_program_address program_id vault_id
             new_sub_account authority = Inr withdraw
         \<and> length (accounts deposit) = 2
         \<and> accounts deposit =
             [\<lparr>pubkey = keypair_pubkey authority, is_signer = True, is_writable = False\<rparr>,
              \<lparr>pubkey = vault_state_pda, is_signer = False, is_writable = True\<rparr>]
         \<and> length (accounts withdraw) = 2
         \<and> accounts withdraw =
             [\<lparr>pubkey = keypair_pubkey authority, is_signer = True, is_writable = False\<rparr>,
              \<lparr>pubkey = vault_state_pda, is_signer = False, is_writable = True\<rparr>]"
    by (simp add: set_deposit_sub_account_instruction_cases
        set_withdraw_sub_account_instruction_cases)
next
  fix instruction
  assume "set_deposit_sub_account_instruction find_program_address program_id vault_id
           new_sub_account authority = Inr instruction
       \<or> set_withdraw_sub_account_instruction find_program_address program_id vault_id
           new_sub_account authority = Inr instruction"
  then show "\<exists>pda b.
              find_program_address [BASE_SEED_BORING_VAULT_STATE, le_bytes 8 vault_id]
                program_id = Inr (pda, b)
            \<and> length (accounts instruction) = 2
            \<and> accounts instruction =
                [\<lparr>pubkey = keypair_pubkey authority, is_signer = True, is_writable = False\<rparr>,
                 \<lparr>pubkey = pda, is_signer = False, is_writable = True\<rparr>]"
    by (rule built_instruction_accounts)
qed

theorem instruction_accounts_witness:
  "\<exists>deposit withdraw.
     set_deposit_sub_account_instruction (\<lambda>seeds program_id. Inr (concat seeds, 255)) [7] 1 5
       \<lparr>keypair_secret = [9], keypair_pubkey = [3]\<rparr> = Inr deposit
   \<and> set_withdraw_sub_account_instruction (\<lambda>seeds program_id. Inr (concat seeds, 255)) [7] 1 5
       \<lparr>keypair_secret = [9], keypair_pubkey = [3]\<rparr> = Inr withdraw
   \<and> accounts deposit =
         [\<lparr>pubkey = [3], is_signer = True, is_writable = False\<rparr>,
          \<lparr>pubkey = BASE_SEED_BORING_VAULT_STATE @ [1, 0, 0, 0, 0, 0, 0, 0],
             is_signer = False, is_writable = True\<rparr>]
   \<and> accounts withdraw =
         [\<lparr>pubkey = [3], is_signer = True, is_writable = False\<rparr>,
          \<lparr>pubkey = BASE_SEED_BORING_VAULT_STATE @ [1, 0, 0, 0, 0, 0, 0, 0],
             is_signer = False, is_writable = True\<rparr>]"
  using instruction_accounts
    [where vault_id = 1 and new_sub_account = 5
       and find_program_address = "\<lambda>seeds program_id. Inr (concat seeds, 255)"
       and program_id = "[7]"
       and vault_state_pda = "concat [BASE_SEED_BORING_VAULT_STATE, le_bytes 8 1]"
       and bump = 255 and authority = "\<lparr>keypair_secret = [9], keypair_pubkey = [3]\<rparr>",
     THEN conjunct1]
  by (auto simp: le_bytes_8)

subsection \<open>The whole connectors: what reaches the client\<close>

lemma set_deposit_sub_account_cases:
  "set_deposit_sub_account find_program_address client program_id vault_id
       new_sub_account authority =
     (case set_deposit_sub_account_instruction find_program_address program_id vault_id
             new_sub_account authority of
        Inl e \<Rightarrow> (Inl e, client)
      | Inr instruction \<Rightarrow>
          (case latest_blockhash client of
             Inl e \<Rightarrow> (Inl e, client\<lparr>calls := calls client @ [GetLatestBlockhash]\<rparr>)
           | Inr blockhash \<Rightarrow>
               (send_result client
                  \<lparr>message = \<lparr>payer = keypair_pubkey authority,
                               instructions = [instruction],
                               address_lookup_table_accounts = [],
                               recent_blockhash = blockhash\<rparr>,
                   signers = [authority]\<rparr>,
                client\<lparr>calls := calls client @
                  [GetLatestBlockhash,
                   SendTransaction
                     \<lparr>message = \<lparr>payer = keypair_pubkey authority,
                                  instructions = [instruction],
                                  address_lookup_table_accounts = [],
                                  recent_blockhash = blockhash\<rparr>,
                      signers = [authority]\<rparr>]\<rparr>)))"
  by (simp add: set_deposit_sub_account_def get_latest_blockhash_def send_transaction_def
      Let_def split: sum.splits)

lemma set_withdraw_sub_account_cases:
  "set_withdraw_sub_account find_program_address client program_id vault_id
       new_sub_account authority =
     (case set_withdraw_sub_account_instruction find_program_address program_id vault_id
             new_sub_account authority of
        Inl e \<Rightarrow> (Inl e, client)
      | Inr instruction \<Rightarrow>
          (case latest_blockhash client of
             Inl e \<Rightarrow> (Inl e, client\<lparr>calls := calls client @ [GetLatestBlockhash]\<rparr>)
           | Inr blockhash \<Rightarrow>
               (send_result client
                  \<lparr>message = \<lparr>payer = keypair_pubkey authority,
                               instructions = [instruction],
                               address_lookup_table_accounts = [],
                               recent_blockhash = blockhash\<rparr>,
                   signers = [authority]\<rparr>,
                client\<lparr>calls := calls client @
                  [GetLatestBlockhash,
                   SendTransaction
                     \<lparr>message = \<lparr>payer = keypair_pubkey authority,
                                  instructions = [instruction],
                                  address_lookup_table_accounts = [],
                                  recent_blockhash = blockhash\<rparr>,
                      signers = [authority]\<rparr>]\<rparr>)))"
  by (simp add: set_withdraw_sub_account_def get_latest_blockhash_def send_transaction_def
      Let_def split: sum.splits)

lemma instruction_new_sub_account_out_of_range:
  assumes "new_sub_account < 0 \<or> 256 \<le> new_sub_account"
  shows "\<exists>e. set_deposit_sub_account_instruction find_program_address program_id vault_id
               new_sub_account authority = Inl e
           \<and> set_withdraw_sub_account_instruction find_program_address program_id vault_id
               new_sub_account authority = Inl e
           \<and> (0 \<le> vault_id \<and> vault_id < 2 ^ 64
                \<and> (\<exists>vault_state_pda bump.
                      find_program_address
                        [BASE_SEED_BORING_VAULT_STATE, le_bytes 8 vault_id] program_id
                      = Inr (vault_state_pda, bump))
               \<longrightarrow> e = FormatFieldError)
           \<and> (\<not> (0 \<le> vault_id \<and> vault_id < 2 ^ 64) \<longrightarrow> e = OverflowError)"
  using assms
  unfolding set_deposit_sub_account_instruction_cases set_withdraw_sub_account_instruction_cases
  by (auto split: sum.splits prod.splits)

text \<open>
  Claim C8. When the new sub-account value is outside \<open>[0, 256)\<close>, either connector
  raises and returns the client as it received it: no blockhash was requested and no
  transaction was sent. The exception is the encoder's \<open>FormatFieldError\<close> whenever the
  identifier fits 64 bits and the address derivation has returned, and the
  \<open>OverflowError\<close> of the identifier's own byte conversion when it does not fit.
\<close>

theorem new_sub_account_out_of_range:
  assumes "new_sub_account < 0 \<or> 256 \<le> new_sub_account"
  shows "\<exists>e. set_deposit_sub_account find_program_address client program_id vault_id
               new_sub_account authority = (Inl e, client)
           \<and> set_withdraw_sub_account find_program_address client program_id vault_id
               new_sub_account authority = (Inl e, client)
           \<and> (0 \<le> vault_id \<and> vault_id < 2 ^ 64
                \<and> (\<exists>vault_state_pda bump.
                      find_program_address
                        [BASE_SEED_BORING_VAULT_STATE, le_bytes 8 vault_id] program_id
                      = Inr (vault_state_pda, bump))
               \<longrightarrow> e = FormatFieldError)
           \<and> (\<not> (0 \<le> vault_id \<and> vault_id < 2 ^ 64) \<longrightarrow> e = OverflowError)"
proof -
  from instruction_new_sub_account_out_of_range [OF assms]
  obtain e where
    d: "set_deposit_sub_account_instruction find_program_address program_id vault_id
          new_sub_account authority = Inl e"
    and w: "set_withdraw_sub_account_instruction find_program_address program_id vault_id
          new_sub_account authority = Inl e"
    and f: "0 \<le> vault_id \<and> vault_id < 2 ^ 64
                \<and> (\<exists>vault_state_pda bump.
                      find_program_address
                        [BASE_SEED_BORING_VAULT_STATE, le_bytes 8 vault_id] program_id
                      = Inr (vault_state_pda, bump))
               \<longrightarrow> e = FormatFieldError"
    and v: "\<not> (0 \<le> vault_id \<and> vault_id < 2 ^ 64) \<longrightarrow> e = OverflowError"
    by blast
  have "set_deposit_sub_account find_program_address client program_id vault_id
               new_sub_account authority = (Inl e, client)"
    by (simp add: set_deposit_sub_account_cases d)
  moreover have "set_withdraw_sub_account find_program_address client program_id vault_id
               new_sub_account authority = (Inl e, client)"
    by (simp add: set_withdraw_sub_account_cases w)
  ultimately show ?thesis using f v by blast
qed

theorem new_sub_account_out_of_range_witness:
  "set_deposit_sub_account (\<lambda>seeds program_id. Inr (concat seeds, 255))
     \<lparr>latest_blockhash = Inr [4], send_result = (\<lambda>transaction. Inr [6]), calls = []\<rparr>
     [7] 1 256 \<lparr>keypair_secret = [9], keypair_pubkey = [3]\<rparr>
   = (Inl FormatFieldError,
      \<lparr>latest_blockhash = Inr [4], send_result = (\<lambda>transaction. Inr [6]), calls = []\<rparr>)"
  using new_sub_account_out_of_range
    [where new_sub_account = 256 and vault_id = 1 and program_id = "[7]"
       and find_program_address = "\<lambda>seeds program_id. Inr (concat seeds, 255)"
       and client = "\<lparr>latest_blockhash = Inr [4], send_result = (\<lambda>transaction. Inr [6]),
                       calls = []\<rparr>"
       and authority = "\<lparr>keypair_secret = [9], keypair_pubkey = [3]\<rparr>"]
  by auto

lemma returned_signature_calls:
  assumes "set_deposit_sub_account find_program_address client program_id vault_id
             new_sub_account authority = (Inr tx_sig, client')
         \<or> set_withdraw_sub_account find_program_address client program_id vault_id
             new_sub_account authority = (Inr tx_sig, client')"
  shows "\<exists>transaction.
           calls client' = calls client @ [GetLatestBlockhash, SendTransaction transaction]
         \<and> send_result client transaction = Inr tx_sig
         \<and> (\<forall>s. ConfirmTransaction s \<notin> set (drop (length (calls client)) (calls client')))
         \<and> latest_blockhash client' = latest_blockhash client
         \<and> send_result client' = send_result client"
  using assms
  unfolding set_deposit_sub_account_cases set_withdraw_sub_account_cases
  by (auto split: sum.splits)

text \<open>
  Claim C9. On an identifier in \<open>[0, 2^64)\<close> and a selector in \<open>[0, 256)\<close>, once the
  address derivation has returned and the client has answered the blockhash request, each
  of the two connectors sends one transaction, holding its instruction, and returns the
  client's answer to that submission; the client has then received exactly two requests,
  the blockhash request and the submission. Whenever a connector returns a signature these
  two are the only requests it made, and no confirmation request is among them: confirming
  is left to the caller.
\<close>

theorem submit_returns_without_confirmation:
  "(0 \<le> vault_id \<and> vault_id < 2 ^ 64 \<and> 0 \<le> new_sub_account \<and> new_sub_account < 256
    \<and> find_program_address [BASE_SEED_BORING_VAULT_STATE, le_bytes 8 vault_id] program_id
          = Inr (vault_state_pda, bump)
    \<and> latest_blockhash client = Inr blockhash
    \<longrightarrow> (\<exists>deposit withdraw deposit_tx withdraw_tx.
           set_deposit_sub_account_instruction find_program_address program_id vault_id
             new_sub_account authority = Inr deposit
         \<and> deposit_tx =
             \<lparr>message = \<lparr>payer = keypair_pubkey authority, instructions = [deposit],
                          address_lookup_table_accounts = [],
                          recent_blockhash = blockhash\<rparr>,
              signers = [authority]\<rparr>
         \<and> set_deposit_sub_account find_program_address client program_id vault_id
             new_sub_account authority
           = (send_result client deposit_tx,
              client\<lparr>calls := calls client
                        @ [GetLatestBlockhash, SendTransaction deposit_tx]\<rparr>)
         \<and> set_withdraw_sub_account_instruction find_program_address program_id vault_id
             new_sub_account authority = Inr withdraw
         \<and> withdraw_tx =
             \<lparr>message = \<lparr>payer = keypair_pubkey authority, instructions = [withdraw],
                          address_lookup_table_accounts = [],
                          recent_blockhash = blockhash\<rparr>,
              signers = [authority]\<rparr>
         \<and> set_withdraw_sub_account find_program_address client program_id vault_id
             new_sub_account authority
           = (send_result client withdraw_tx,
              client\<lparr>calls := calls client
                        @ [GetLatestBlockhash, SendTransaction withdraw_tx]\<rparr>)))
   \<and> (\<forall>tx_sig client'.
         set_deposit_sub_account find_program_address client program_id vault_id
           new_sub_account authority = (Inr tx_sig, client')
       \<or> set_withdraw_sub_account find_program_address client program_id vault_id
           new_sub_account authority = (Inr tx_sig, client')
       \<longrightarrow> (\<exists>transaction.
              calls client' = calls client @ [GetLatestBlockhash, SendTransaction transaction]
            \<and> send_result client transaction = Inr tx_sig
            \<and> (\<forall>s. ConfirmTransaction s
                      \<notin> set (drop (length (calls client)) (calls client')))))"
proof (intro conjI impI allI)
  assume valid: "0 \<le> vault_id \<and> vault_id < 2 ^ 64 \<and> 0 \<le> new_sub_account
    \<and> new_sub_account < 256
    \<and> find_program_address [BASE_SEED_BORING_VAULT_STATE, le_bytes 8 vault_id] program_id
          = Inr (vault_state_pda, bump)
    \<and> latest_blockhash client = Inr blockhash"
  then show "\<exists>deposit withdraw deposit_tx withdraw_tx.
           set_deposit_sub_account_instruction find_program_address program_id vault_id
             new_sub_account authority = Inr deposit
         \<and> deposit_tx =
             \<lparr>message = \<lparr>payer = keypair_pubkey authority, instructions = [deposit],
                          address_lookup_table_accounts = [],
                          recent_blockhash = blockhash\<rparr>,
              signers = [authority]\<rparr>
         \<and> set_deposit_sub_account find_program_address client program_id vault_id
             new_sub_account authority
           = (send_result client deposit_tx,
              client\<lparr>calls := calls client
                        @ [GetLatestBlockhash, SendTransaction deposit_tx]\<rparr>)
         \<and> set_withdraw_sub_account_instruction find_program_address program_id vault_id
             new_sub_account authority = Inr withdraw
         \<and> withdraw_tx =
             \<lparr>message = \<lparr>payer = keypair_pubkey authority, instructions = [withdraw],
                          address_lookup_table_accounts = [],
                          recent_blockhash = blockhash\<rparr>,
              signers = [authority]\<rparr>
         \<and> set_withdraw_sub_account find_program_address client program_id vault_id
             new_sub_account authority
           = (send_result client withdraw_tx,
              client\<lparr>calls := calls client
                        @ [GetLatestBlockhash, SendTransaction withdraw_tx]\<rparr>)"
    by (simp add: set_deposit_sub_account_cases set_withdraw_sub_account_cases
        set_deposit_sub_account_instruction_cases set_withdraw_sub_account_instruction_cases)
next
  fix tx_sig client'
  assume "set_deposit_sub_account find_program_address client program_id vault_id
           new_sub_account authority = (Inr tx_sig, client')
       \<or> set_withdraw_sub_account find_program_address client program_id vault_id
           new_sub_account authority = (Inr tx_sig, client')"
  from returned_signature_calls [OF this]
  show "\<exists>transaction.
              calls client' = calls client @ [GetLatestBlockhash, SendTransaction transaction]
            \<and> send_result client transaction = Inr tx_sig
            \<and> (\<forall>s. ConfirmTransaction s
                      \<notin> set (drop (length (calls client)) (calls client')))"
    by blast
qed

theorem submit_returns_without_confirmation_witness:
  "\<exists>deposit_tx withdraw_tx.
     set_deposit_sub_account (\<lambda>seeds program_id. Inr (concat seeds, 255))
       \<lparr>latest_blockhash = Inr [4], send_result = (\<lambda>transaction. Inr [6]), calls = []\<rparr>
       [7] 1 5 \<lparr>keypair_secret = [9], keypair_pubkey = [3]\<rparr>
     = (Inr [6],
        \<lparr>latest_blockhash = Inr [4], send_result = (\<lambda>transaction. Inr [6]),
          calls = [GetLatestBlockhash, SendTransaction deposit_tx]\<rparr>)
   \<and> set_withdraw_sub_account (\<lambda>seeds program_id. Inr (concat seeds, 255))
       \<lparr>latest_blockhash = Inr [4], send_result = (\<lambda>transaction. Inr [6]), calls = []\<rparr>
       [7] 1 5 \<lparr>keypair_secret = [9], keypair_pubkey = [3]\<rparr>
     = (Inr [6],
        \<lparr>latest_blockhash = Inr [4], send_result = (\<lambda>transaction. Inr [6]),
          calls = [GetLatestBlockhash, SendTransaction withdraw_tx]\<rparr>)
   \<and> map data (instructions (message deposit_tx))
       = [[135, 238, 218, 4, 120, 77, 207, 156, 1, 0, 0, 0, 0, 0, 0, 0, 5]]
   \<and> map data (instructions (message withdraw_tx))
       = [[152, 197, 103, 249, 56, 180, 0, 172, 1, 0, 0, 0, 0, 0, 0, 0, 5]]"
  using submit_returns_without_confirmation
    [where vault_id = 1 and new_sub_account = 5
       and find_program_address = "\<lambda>seeds program_id. Inr (concat seeds, 255)"
       and program_id = "[7]"
       and vault_state_pda = "concat [BASE_SEED_BORING_VAULT_STATE, le_bytes 8 1]"
       and bump = 255 and authority = "\<lparr>keypair_secret = [9], keypair_pubkey = [3]\<rparr>"
       and client = "\<lparr>latest_blockhash = Inr [4], send_result = (\<lambda>transaction. Inr [6]),
                       calls = []\<rparr>"
       and blockhash = "[4]",
     THEN conjunct1]
  by (auto simp: set_deposit_sub_account_instruction_cases
      set_withdraw_sub_account_instruction_cases le_bytes_8 le_bytes_1
      SET_DEPOSIT_SUB_ACCOUNT_DISCRIMINATOR_def SET_WITHDRAW_SUB_ACCOUNT_DISCRIMINATOR_def)

text \<open>
  Claim C10. On the same program id, identifier, new sub-account and authority the two
  connectors build instructions with the same two account references, the second of them
  the address derived from the one seed list, and with data that agrees on its last 9
  bytes, the encoded arguments; only the leading 8 bytes differ, each connector's own
  discriminator.
\<close>

theorem connectors_differ_only_in_discriminator:
  assumes "0 \<le> vault_id" "vault_id < 2 ^ 64" "0 \<le> new_sub_account" "new_sub_account < 256"
    and "find_program_address [BASE_SEED_BORING_VAULT_STATE, le_bytes 8 vault_id] program_id
           = Inr (vault_state_pda, bump)"
  shows "\<exists>deposit withdraw.
           set_deposit_sub_account_instruction find_program_address program_id vault_id
             new_sub_account authority = Inr deposit
         \<and> set_withdraw_sub_account_instruction find_program_address program_id vault_id
             new_sub_account authority = Inr withdraw
         \<and> accounts deposit = accounts withdraw
         \<and> length (accounts deposit) = 2
         \<and> pubkey (accounts deposit ! 1) = vault_state_pda
         \<and> pubkey (accounts withdraw ! 1) = vault_state_pda
         \<and> instruction_program_id deposit = instruction_program_id withdraw
         \<and> take 8 (data deposit) = SET_DEPOSIT_SUB_ACCOUNT_DISCRIMINATOR
         \<and> take 8 (data withdraw) = SET_WITHDRAW_SUB_ACCOUNT_DISCRIMINATOR
         \<and> take 8 (data deposit) \<noteq> take 8 (data withdraw)
         \<and> drop 8 (data deposit) = drop 8 (data withdraw)
         \<and> length (drop 8 (data deposit)) = 9"
proof -
  have "set_deposit_sub_account_instruction find_program_address program_id vault_id
           new_sub_account authority
         = Inr \<lparr>instruction_program_id = program_id,
                data = SET_DEPOSIT_SUB_ACCOUNT_DISCRIMINATOR
                         @ le_bytes 8 vault_id @ le_bytes 1 new_sub_account,
                accounts =
                  [\<lparr>pubkey = keypair_pubkey authority, is_signer = True, is_writable = False\<rparr>,
                   \<lparr>pubkey = vault_state_pda, is_signer = False, is_writable = True\<rparr>]\<rparr>"
    using assms by (rule set_deposit_sub_account_instruction_ok)
  moreover have "set_withdraw_sub_account_instruction find_program_address program_id vault_id
           new_sub_account authority
         = Inr \<lparr>instruction_program_id = program_id,
                data = SET_WITHDRAW_SUB_ACCOUNT_DISCRIMINATOR
                         @ le_bytes 8 vault_id @ le_bytes 1 new_sub_account,
                accounts =
                  [\<lparr>pubkey = keypair_pubkey authority, is_signer = True, is_writable = False\<rparr>,
                   \<lparr>pubkey = vault_state_pda, is_signer = False, is_writable = True\<rparr>]\<rparr>"
    using assms by (rule set_withdraw_sub_account_instruction_ok)
  ultimately show ?thesis
    by (simp add: SET_DEPOSIT_SUB_ACCOUNT_DISCRIMINATOR_def
        SET_WITHDRAW_SUB_ACCOUNT_DISCRIMINATOR_def)
qed

theorem connectors_differ_only_in_discriminator_witness:
  "\<exists>deposit withdraw.
     set_deposit_sub_account_instruction (\<lambda>seeds program_id. Inr (concat seeds, 255)) [7] 1 5
       \<lparr>keypair_secret = [9], keypair_pubkey = [3]\<rparr> = Inr deposit
   \<and> set_withdraw_sub_account_instruction (\<lambda>seeds program_id. Inr (concat seeds, 255)) [7] 1 5
       \<lparr>keypair_secret = [9], keypair_pubkey = [3]\<rparr> = Inr withdraw
   \<and> accounts deposit = accounts withdraw
   \<and> drop 8 (data deposit) = drop 8 (data withdraw)
   \<and> take 8 (data deposit) \<noteq> take 8 (data withdraw)"
  using connectors_differ_only_in_discriminator
    [where vault_id = 1 and new_sub_account = 5
       and find_program_address = "\<lambda>seeds program_id. Inr (concat seeds, 255)"
       and program_id = "[7]"
       and vault_state_pda = "concat [BASE_SEED_BORING_VAULT_STATE, le_bytes 8 1]"
       and bump = 255 and authority = "\<lparr>keypair_secret = [9], keypair_pubkey = [3]\<rparr>"]
  by auto

section \<open>Properties of the account-record decoder\<close>

lemma FormatField_parse_cases:
  "FormatField_parse n stream =
     (if length stream < n then Inl StreamError
      else Inr (from_bytes (take n stream), drop n stream))"
  by (simp add: FormatField_parse_def stream_read_def)

lemma Bool_parse_cases:
  "Bool_parse stream =
     (if length stream < 1 then Inl StreamError
      else Inr (take 1 stream \<noteq> [0], drop 1 stream))"
  by (simp add: Bool_parse_def stream_read_def)

lemma Bytes_parse_cases:
  "Bytes_parse n stream =
     (if length stream < n then Inl StreamError else Inr (take n stream, drop n stream))"
  by (simp add: Bytes_parse_def stream_read_def)

lemma and_then_FormatField_parse:
  "and_then (FormatField_parse n stream) f =
     (if length stream < n then Inl StreamError
      else f (from_bytes (take n stream), drop n stream))"
  by (simp add: FormatField_parse_cases)

lemma and_then_Bool_parse:
  "and_then (Bool_parse stream) f =
     (if length stream < 1 then Inl StreamError
      else f (take 1 stream \<noteq> [0], drop 1 stream))"
  by (simp add: Bool_parse_cases)

lemma and_then_Bytes_parse:
  "and_then (Bytes_parse n stream) f =
     (if length stream < n then Inl StreamError else f (take n stream, drop n stream))"
  by (simp add: Bytes_parse_cases)

lemmas and_then_field_parse =
  U8_parse_def U16_parse_def U32_parse_def U64_parse_def
  and_then_FormatField_parse and_then_Bool_parse and_then_Bytes_parse

lemma boring_vault_flat_struct_parse_short:
  "length account_data < 320 \<Longrightarrow>
   boring_vault_flat_struct_parse account_data = Inl StreamError"
  unfolding boring_vault_flat_struct_parse_def and_then_field_parse prod.case
  by simp

lemma and_then_FormatField_parse_ok:
  "n \<le> length stream \<Longrightarrow>
   and_then (FormatField_parse n stream) f = f (from_bytes (take n stream), drop n stream)"
  by (simp add: and_then_FormatField_parse)

lemma and_then_Bool_parse_ok:
  "1 \<le> length stream \<Longrightarrow>
   and_then (Bool_parse stream) f = f (take 1 stream \<noteq> [0], drop 1 stream)"
  by (cases stream) (simp_all add: and_then_Bool_parse)

lemma and_then_Bytes_parse_ok:
  "n \<le> length stream \<Longrightarrow>
   and_then (Bytes_parse n stream) f = f (take n stream, drop n stream)"
  by (simp add: and_then_Bytes_parse)

lemma boring_vault_flat_struct_parse_long:
  "320 \<le> length account_data \<Longrightarrow>
   boring_vault_flat_struct_parse account_data =
     Inr \<lparr> config_vault_id = from_bytes (take 8 account_data),
           config_authority = take 32 (drop 8 account_data),
           config_pending_authority = take 32 (drop 40 account_data),
           config_paused = (take 1 (drop 72 account_data) \<noteq> [0]),
           config_share_mint = take 32 (drop 73 account_data),
           config_deposit_sub_account = from_bytes (take 1 (drop 105 account_data)),
           config_withdraw_sub_account = from_bytes (take 1 (drop 106 account_data)),
           teller_base_asset = take 32 (drop 107 account_data),
           teller_decimals = from_bytes (take 1 (drop 139 account_data)),
           teller_exchange_rate_provider = take 32 (drop 140 account_data),
           teller_exchange_rate = from_bytes (take 8 (drop 172 account_data)),
           teller_exchange_rate_high_water_mark = from_bytes (take 8 (drop 180 account_data)),
           teller_fees_owed_in_base_asset = from_bytes (take 8 (drop 188 account_data)),
           teller_total_shares_last_update = from_bytes (take 8 (drop 196 account_data)),
           teller_last_update_timestamp = from_bytes (take 8 (drop 204 account_data)),
           teller_payout_address = take 32 (drop 212 account_data),
           teller_allowed_exchange_rate_change_upper_bound =
             from_bytes (take 2 (drop 244 account_data)),
           teller_allowed_exchange_rate_change_lower_bound =
             from_bytes (take 2 (drop 246 account_data)),
           teller_minimum_update_delay_in_seconds = from_bytes (take 4 (drop 248 account_data)),
           teller_platform_fee_bps = from_bytes (take 2 (drop 252 account_data)),
           teller_performance_fee_bps = from_bytes (take 2 (drop 254 account_data)),
           teller_withdraw_authority = take 32 (drop 256 account_data),
           manager_strategist = take 32 (drop 288 account_data) \<rparr>"
  unfolding boring_vault_flat_struct_parse_def
    U8_parse_def U16_parse_def U32_parse_def U64_parse_def
  by (simp add: and_then_FormatField_parse_ok and_then_Bool_parse_ok and_then_Bytes_parse_ok)

lemma take_drop_take:
  "k + n \<le> m \<Longrightarrow> take n (drop k (take m xs)) = take n (drop k xs)"
  by (simp add: drop_take min_absorb1)

lemma take_take_le: "n \<le> m \<Longrightarrow> take n (take m xs) = take n xs"
  by (simp add: min_absorb1)

lemma boring_vault_flat_struct_parse_take:
  assumes "320 \<le> length account_data"
  shows "boring_vault_flat_struct_parse (take 320 account_data)
         = boring_vault_flat_struct_parse account_data"
proof -
  have "320 \<le> length (take 320 account_data)" using assms by simp
  then show ?thesis
    unfolding boring_vault_flat_struct_parse_long [OF assms]
      boring_vault_flat_struct_parse_long [OF \<open>320 \<le> length (take 320 account_data)\<close>]
    by (simp only: take_drop_take take_take_le)
qed

lemma from_bytes_replicate_0 [simp]: "from_bytes (replicate n 0) = 0"
  by (induction n) simp_all

text \<open>
  Claim C2, as amended. The declared field widths of the account record add up to 320
  bytes. The decoder raises \<open>StreamError\<close> on every buffer shorter than 320 bytes,
  whatever its content, and so on every 244-byte buffer. On a buffer of 320 bytes or more
  it returns a record, the one decoded from the first 320 bytes: what follows them is not
  read.
\<close>

theorem boring_vault_flat_struct_parse_length:
  "(length account_data < 320 \<longrightarrow>
      boring_vault_flat_struct_parse account_data = Inl StreamError)
   \<and> (320 \<le> length account_data \<longrightarrow>
      (\<exists>decoded_data. boring_vault_flat_struct_parse account_data = Inr decoded_data)
      \<and> boring_vault_flat_struct_parse account_data
          = boring_vault_flat_struct_parse (take 320 account_data))"
  using boring_vault_flat_struct_parse_short [of account_data]
    boring_vault_flat_struct_parse_long [of account_data]
    boring_vault_flat_struct_parse_take [of account_data]
  by simp

theorem boring_vault_flat_struct_parse_length_witness:
  "boring_vault_flat_struct_parse (replicate 244 7) = Inl StreamError
   \<and> boring_vault_flat_struct_parse (replicate 321 7)
       = boring_vault_flat_struct_parse (replicate 320 7)"
  using boring_vault_flat_struct_parse_length [of "replicate 244 7"]
    boring_vault_flat_struct_parse_length [of "replicate 321 7"]
  by simp

text \<open>
  The claim as it was stated, that every buffer whose length is not 244 is rejected, fails:
  320 zero bytes are not 244 bytes and decode to the all-zero record.
\<close>

theorem boring_vault_flat_struct_parse_counterexample:
  "length (replicate 320 (0 :: byte)) \<noteq> 244
   \<and> boring_vault_flat_struct_parse (replicate 320 0) =
       Inr \<lparr> config_vault_id = 0,
             config_authority = replicate 32 0,
             config_pending_authority = replicate 32 0,
             config_paused = False,
             config_share_mint = replicate 32 0,
             config_deposit_sub_account = 0,
             config_withdraw_sub_account = 0,
             teller_base_asset = replicate 32 0,
             teller_decimals = 0,
             teller_exchange_rate_provider = replicate 32 0,
             teller_exchange_rate = 0,
             teller_exchange_rate_high_water_mark = 0,
             teller_fees_owed_in_base_asset = 0,
             teller_total_shares_last_update = 0,
             teller_last_update_timestamp = 0,
             teller_payout_address = replicate 32 0,
             teller_allowed_exchange_rate_change_upper_bound = 0,
             teller_allowed_exchange_rate_change_lower_bound = 0,
             teller_minimum_update_delay_in_seconds = 0,
             teller_platform_fee_bps = 0,
             teller_performance_fee_bps = 0,
             teller_withdraw_authority = replicate 32 0,
             manager_strategist = replicate 32 0 \<rparr>"
proof -
  have "320 \<le> length (replicate 320 (0 :: byte))" by simp
  from boring_vault_flat_struct_parse_long [OF this]
  show ?thesis by simp
qed

section \<open>Properties of the address derivation\<close>

lemma derive_from_functional:
  "derive_from hash on_curve program_id namespace_seed ident bump outcome \<Longrightarrow>
   derive_from hash on_curve program_id namespace_seed ident bump outcome' \<Longrightarrow>
   outcome' = outcome"
proof (induction arbitrary: outcome' rule: derive_from.induct)
  case (found bump)
  from found.prems found.hyps show ?case
    by (cases rule: derive_from.cases) simp_all
next
  case (next_bump bump outcome)
  from next_bump.prems next_bump.hyps(1) have
    "derive_from hash on_curve program_id namespace_seed ident bump outcome'"
    by (cases rule: derive_from.cases) simp_all
  then show ?case by (rule next_bump.IH)
next
  case exhausted
  from exhausted.prems exhausted.hyps show ?case
    by (cases rule: derive_from.cases) simp_all
qed

lemma derive_from_search_bump:
  "derive_from hash on_curve program_id namespace_seed ident bump
     (search_bump hash on_curve program_id namespace_seed ident bump)"
  by (induction bump) (auto simp: Let_def intro: derive_from.intros)

lemma search_bump_bound:
  "search_bump hash on_curve program_id namespace_seed ident bump = Inr (address, b) \<Longrightarrow>
   b \<le> bump"
  by (induction bump) (auto simp: Let_def split: if_splits)

lemma derives_derive:
  "derives hash on_curve program_id namespace_seed ident
     (derive hash on_curve program_id namespace_seed ident)"
  unfolding derives_def derive_def by (rule derive_from_search_bump)

text \<open>
  Claim C7. Address derivation is deterministic: two invocations of \<open>derive\<close> on the
  same program id, namespace seed and identifier end in the same outcome, the same address
  and bump or the same failure, and that outcome is the value the function \<open>derive\<close>
  computes.
\<close>

theorem derive_deterministic:
  assumes "derives hash on_curve program_id namespace_seed ident first"
    and "derives hash on_curve program_id namespace_seed ident second"
  shows "first = second
       \<and> first = derive hash on_curve program_id namespace_seed ident"
proof -
  have run: "derive_from hash on_curve program_id namespace_seed ident 255
              (derive hash on_curve program_id namespace_seed ident)"
    using derives_derive unfolding derives_def .
  have 1: "first = derive hash on_curve program_id namespace_seed ident"
    using run assms(1) unfolding derives_def by (rule derive_from_functional)
  have 2: "second = derive hash on_curve program_id namespace_seed ident"
    using run assms(2) unfolding derives_def by (rule derive_from_functional)
  from 1 2 show ?thesis by simp
qed

theorem derive_deterministic_witness:
  "derives (\<lambda>bs. drop 8 bs) (\<lambda>address. hd address = 255) [7] [] 1 (Inr ([254, 7], 254))
   \<and> derive (\<lambda>bs. drop 8 bs) (\<lambda>address. hd address = 255) [7] [] 1 = Inr ([254, 7], 254)"
proof -
  have r: "derive (\<lambda>bs. drop 8 bs) (\<lambda>address. hd address = 255) [7] [] 1
             = Inr ([254, 7], 254)"
    by code_simp
  have d: "derives (\<lambda>bs. drop 8 bs) (\<lambda>address. hd address = 255) [7] [] 1
             (Inr ([254, 7], 254))"
    using derives_derive [of "\<lambda>bs. drop 8 bs" "\<lambda>address. hd address = 255" "[7]" "[]" 1]
    unfolding r .
  from derive_deterministic [OF d d] d show ?thesis by simp
qed

end
